theory Spec2Isabelle
  imports Main "HOL-Library.AList"
begin

section \<open>Contact manager: the assistant bot of main.py\<close>

text \<open>
  A shallow embedding of \<^verbatim>\<open>src/main.py\<close>. A Python string is the list of
  its code points, Python integers are \<^typ>\<open>int\<close>. Exceptions are values of \<open>py_error\<close>; a call that may raise
  returns \<open>py_error + 'a\<close> with \<open>Inl\<close> for the exception. A method that mutates its
  object returns the object after the call together with that result, so that what an
  exception leaves behind is part of the model.
\<close>

subsection \<open>Strings\<close>

text \<open>
  A \<^verbatim>\<open>str\<close> is a sequence of Unicode code points, of any script. \<open>ascii\<close> writes
  a string of the source, and \<open>cp\<close> one of its characters, as code points.
\<close>

type_synonym code_point = int

type_synonym str = "code_point list"

abbreviation cp :: "char \<Rightarrow> code_point" where
  "cp c \<equiv> of_char c"

abbreviation ascii :: "string \<Rightarrow> str" where
  "ascii s \<equiv> map of_char s"

text \<open>
  The tables of the Unicode character database are those of CPython 3.11 (Unicode 14.0).
  Every script writes its ten decimal digits as ten consecutive code points, from the
  digit zero on: \<open>DECIMAL_ZEROS\<close> lists the digits zero, so the digits of a script are
  \<open>z\<close> to \<open>z + 9\<close> and the value of a digit is its distance from \<open>z\<close>.
  \<open>WHITESPACE\<close> lists the code points for which \<^verbatim>\<open>str.isspace\<close> holds.
\<close>

definition DECIMAL_ZEROS :: "code_point list" where
  "DECIMAL_ZEROS =
    [48, 1632, 1776, 1984, 2406, 2534, 2662, 2790, 2918, 3046, 3174, 3302, 3430, 3558,
     3664, 3792, 3872, 4160, 4240, 6112, 6160, 6470, 6608, 6784, 6800, 6992, 7088, 7232,
     7248, 42528, 43216, 43264, 43472, 43504, 43600, 44016, 65296, 66720, 68912, 69734,
     69872, 69942, 70096, 70384, 70736, 70864, 71248, 71360, 71472, 71904, 72016, 72784,
     73040, 73120, 92768, 92864, 93008, 120782, 120792, 120802, 120812, 120822, 123200,
     123632, 125264, 130032]"

definition WHITESPACE :: "code_point list" where
  "WHITESPACE =
    [9, 10, 11, 12, 13, 28, 29, 30, 31, 32, 133, 160, 5760, 8192, 8193, 8194, 8195, 8196,
     8197, 8198, 8199, 8200, 8201, 8202, 8232, 8233, 8239, 8287, 12288]"

text \<open>
  \<open>isdigit\<close> is the class \<^verbatim>\<open>\d\<close> of the \<^verbatim>\<open>re\<close> module on a \<^verbatim>\<open>str\<close>: a
  decimal digit of any script. \<open>digit_val\<close> is the value that \<^verbatim>\<open>int\<close> gives it.
\<close>

definition zero_of :: "code_point \<Rightarrow> code_point option" where
  "zero_of c = find (\<lambda>z. z \<le> c \<and> c < z + 10) DECIMAL_ZEROS"

definition isdigit :: "code_point \<Rightarrow> bool" where
  "isdigit c = (zero_of c \<noteq> None)"

definition digit_val :: "code_point \<Rightarrow> int" where
  "digit_val c = (case zero_of c of Some z \<Rightarrow> c - z | None \<Rightarrow> 0)"

text \<open>\<^verbatim>\<open>str.isspace\<close> of one character, and \<^verbatim>\<open>str.strip()\<close>.\<close>

definition isspace :: "code_point \<Rightarrow> bool" where
  "isspace c = (c \<in> set WHITESPACE)"

definition strip :: "str \<Rightarrow> str" where
  "strip s = rev (dropWhile isspace (rev (dropWhile isspace s)))"

text \<open>A class \<^verbatim>\<open>[a-b]\<close> of a regular expression.\<close>

definition char_range :: "char \<Rightarrow> char \<Rightarrow> code_point \<Rightarrow> bool" where
  "char_range a b c = (cp a \<le> c \<and> c \<le> cp b)"

subsection \<open>Exceptions\<close>

datatype py_error =
    ValueError str
  | KeyError str
  | IndexError str
  | OverflowError str

type_synonym 'a result = "py_error + 'a"

subsection \<open>The regular expression of a phone number\<close>

text \<open>
  \<open>match_digits n\<close> is the regular expression \<^verbatim>\<open>\d{n}\<close> run at the start of a
  string: it consumes \<open>n\<close> digits and returns what follows them, or fails.
\<close>

fun match_digits :: "nat \<Rightarrow> str \<Rightarrow> str option" where
  "match_digits 0 s = Some s"
| "match_digits (Suc n) [] = None"
| "match_digits (Suc n) (c # cs) = (if isdigit c then match_digits n cs else None)"

text \<open>\<^verbatim>\<open>re.fullmatch(r'\d{10}', value)\<close>: the match must end at the end of the string.\<close>

definition fullmatch_d10 :: "str \<Rightarrow> bool" where
  "fullmatch_d10 s = (match_digits 10 s = Some [])"

subsection \<open>Fields\<close>

text \<open>
  A \<^verbatim>\<open>Field\<close> wraps one value; \<^verbatim>\<open>Name\<close>, \<^verbatim>\<open>Phone\<close> and
  \<^verbatim>\<open>Birthday\<close> add nothing but the constructor's check, so a field object is modelled
  by its value and a constructor by the check that returns the value or raises.
\<close>

definition Phone :: "str \<Rightarrow> str result" where
  "Phone v = (if \<not> fullmatch_d10 v then Inl (ValueError (ascii ''Phone must be 10 digits.''))
              else Inr v)"

subsection \<open>Calendar dates: the \<^verbatim>\<open>datetime\<close> module\<close>

text \<open>
  The standard library is not part of the repository; the functions below follow
  CPython's \<^verbatim>\<open>datetime.py\<close>, function by function and under its names. A
  \<^verbatim>\<open>date\<close> object holds a year, a month and a day. The messages of the errors are
  those of the C implementation of the module.
\<close>

record date =
  year :: int
  month :: int
  day :: int

definition MINYEAR :: int where "MINYEAR = 1"
definition MAXYEAR :: int where "MAXYEAR = 9999"
definition MAXORDINAL :: int where "MAXORDINAL = 3652059"

definition DAYS_IN_MONTH :: "int list" where
  "DAYS_IN_MONTH = [-1, 31, 28, 31, 30, 31, 30, 31, 31, 30, 31, 30, 31]"

definition DAYS_BEFORE_MONTH :: "int list" where
  "DAYS_BEFORE_MONTH = [-1, 0, 31, 59, 90, 120, 151, 181, 212, 243, 273, 304, 334]"

definition is_leap :: "int \<Rightarrow> bool" where
  "is_leap y = (y mod 4 = 0 \<and> (y mod 100 \<noteq> 0 \<or> y mod 400 = 0))"

definition days_before_year :: "int \<Rightarrow> int" where
  "days_before_year yr = (let y = yr - 1 in y * 365 + y div 4 - y div 100 + y div 400)"

definition days_in_month :: "int \<Rightarrow> int \<Rightarrow> int" where
  "days_in_month y m = (if m = 2 \<and> is_leap y then 29 else DAYS_IN_MONTH ! nat m)"

definition days_before_month :: "int \<Rightarrow> int \<Rightarrow> int" where
  "days_before_month y m = DAYS_BEFORE_MONTH ! nat m + (if m > 2 \<and> is_leap y then 1 else 0)"

definition ymd2ord :: "int \<Rightarrow> int \<Rightarrow> int \<Rightarrow> int" where
  "ymd2ord y m d = days_before_year y + days_before_month y m + d"

definition DI400Y :: int where "DI400Y = 146097"
definition DI100Y :: int where "DI100Y = 36524"
definition DI4Y :: int where "DI4Y = 1461"

text \<open>
  \<^verbatim>\<open>_ord2ymd\<close>: the year, month and day of an ordinal, January 1 of year 1 being
  day 1. \<^verbatim>\<open>divmod\<close> is \<open>div\<close> and \<open>mod\<close>, \<^verbatim>\<open>x >> 5\<close> is \<open>x div 32\<close>.
\<close>

definition ord2ymd :: "int \<Rightarrow> int \<times> int \<times> int" where
  "ord2ymd n =
    (let n0 = n - 1;
         n400 = n0 div DI400Y; r1 = n0 mod DI400Y;
         n100 = r1 div DI100Y; r2 = r1 mod DI100Y;
         n4 = r2 div DI4Y; r3 = r2 mod DI4Y;
         n1 = r3 div 365; r4 = r3 mod 365;
         yr = n400 * 400 + 1 + (n100 * 100 + n4 * 4 + n1)
     in if n1 = 4 \<or> n100 = 4 then (yr - 1, 12, 31)
        else
          let leapyear = (n1 = 3 \<and> (n4 \<noteq> 24 \<or> n100 = 3));
              m = (r4 + 50) div 32;
              preceding = DAYS_BEFORE_MONTH ! nat m + (if m > 2 \<and> leapyear then 1 else 0)
          in if preceding > r4
             then let m' = m - 1;
                      preceding' = preceding
                        - (DAYS_IN_MONTH ! nat m' + (if m' = 2 \<and> leapyear then 1 else 0))
                  in (yr, m', r4 - preceding' + 1)
             else (yr, m, r4 - preceding + 1))"

text \<open>
  The constructor \<^verbatim>\<open>date(year, month, day)\<close> checks its fields and raises
  \<^verbatim>\<open>ValueError\<close> for a date that the calendar does not have.
\<close>

fun str_nat :: "nat \<Rightarrow> str" where
  "str_nat n = (if n < 10 then [(ascii ''0123456789'') ! n]
                else str_nat (n div 10) @ [(ascii ''0123456789'') ! (n mod 10)])"

definition str_int :: "int \<Rightarrow> str" where
  "str_int i = (if i < 0 then (cp CHR ''-'') # str_nat (nat (- i)) else str_nat (nat i))"

definition date_new :: "int \<Rightarrow> int \<Rightarrow> int \<Rightarrow> date result" where
  "date_new y m d =
    (if \<not> (MINYEAR \<le> y \<and> y \<le> MAXYEAR)
       then Inl (ValueError ((ascii ''year '') @ str_int y @ (ascii '' is out of range'')))
     else if \<not> (1 \<le> m \<and> m \<le> 12) then Inl (ValueError (ascii ''month must be in 1..12''))
     else if \<not> (1 \<le> d \<and> d \<le> days_in_month y m)
       then Inl (ValueError (ascii ''day is out of range for month''))
     else Inr \<lparr>year = y, month = m, day = d\<rparr>)"

text \<open>\<^verbatim>\<open>d.replace(year=y)\<close> builds a new date through the constructor.\<close>

definition replace_year :: "date \<Rightarrow> int \<Rightarrow> date result" where
  "replace_year d y = date_new y (month d) (day d)"

definition toordinal :: "date \<Rightarrow> int" where
  "toordinal d = ymd2ord (year d) (month d) (day d)"

definition fromordinal :: "int \<Rightarrow> date" where
  "fromordinal n = (case ord2ymd n of (y, m, d) \<Rightarrow> \<lparr>year = y, month = m, day = d\<rparr>)"

text \<open>\<^verbatim>\<open>weekday()\<close>: Monday is 0, Sunday is 6.\<close>

definition weekday :: "date \<Rightarrow> int" where
  "weekday d = (toordinal d + 6) mod 7"

text \<open>\<^verbatim>\<open>a < b\<close> compares year, month and day in this order.\<close>

definition date_lt :: "date \<Rightarrow> date \<Rightarrow> bool" where
  "date_lt a b = (year a < year b \<or> (year a = year b \<and>
                   (month a < month b \<or> (month a = month b \<and> day a < day b))))"

text \<open>\<^verbatim>\<open>(a - b).days\<close>\<close>

definition days_between :: "date \<Rightarrow> date \<Rightarrow> int" where
  "days_between a b = toordinal a - toordinal b"

text \<open>\<^verbatim>\<open>d + timedelta(days=k)\<close>\<close>

definition date_add_days :: "date \<Rightarrow> int \<Rightarrow> date result" where
  "date_add_days d k =
    (let o' = toordinal d + k
     in if 0 < o' \<and> o' \<le> MAXORDINAL then Inr (fromordinal o')
        else Inl (OverflowError (ascii ''date value out of range'')))"

text \<open>
  The objects the program handles come out of the constructor, so their fields are in
  range; \<open>valid_date\<close> says so of a date given as a parameter.
\<close>

definition valid_date :: "date \<Rightarrow> bool" where
  "valid_date d = (MINYEAR \<le> year d \<and> year d \<le> MAXYEAR \<and> 1 \<le> month d \<and> month d \<le> 12
                   \<and> 1 \<le> day d \<and> day d \<le> days_in_month (year d) (month d))"

subsection \<open>Parsing and printing a date: \<^verbatim>\<open>strptime\<close> and \<^verbatim>\<open>strftime\<close>\<close>

text \<open>
  \<^verbatim>\<open>datetime.strptime(s, "%d.%m.%Y")\<close> turns the format into the regular expression
  \<^verbatim>\<open>(?P<d>3[0-1]|[1-2]\d|0[1-9]|[1-9]| [1-9])\.(?P<m>1[0-2]|0[1-9]|[1-9])\.(?P<Y>\d\d\d\d)\<close>
  (CPython's \<^verbatim>\<open>_strptime.py\<close>), matches it at the start of \<open>s\<close>, refuses text left
  after the match, converts the three groups with \<^verbatim>\<open>int\<close> and builds the date.
  Every failure is a \<^verbatim>\<open>ValueError\<close>; the two messages of \<^verbatim>\<open>_strptime\<close> are
  written without the quoting of \<^verbatim>\<open>repr\<close>.

  A matcher returns every way it can match at the start of a string, in the order in which
  the backtracking engine tries them, each with the text of the group and the rest of the
  string.
\<close>

type_synonym matcher = "str \<Rightarrow> (str \<times> str) list"

definition one_char :: "(code_point \<Rightarrow> bool) \<Rightarrow> matcher" where
  "one_char P s = (case s of a # r \<Rightarrow> if P a then [([a], r)] else [] | [] \<Rightarrow> [])"

definition two_chars :: "(code_point \<Rightarrow> bool) \<Rightarrow> (code_point \<Rightarrow> bool) \<Rightarrow> matcher" where
  "two_chars P Q s =
     (case s of a # b # r \<Rightarrow> if P a \<and> Q b then [([a, b], r)] else [] | _ \<Rightarrow> [])"

definition is_1_9 :: "code_point \<Rightarrow> bool" where
  "is_1_9 c = char_range CHR ''1'' CHR ''9'' c"

text \<open>\<^verbatim>\<open>3[0-1]|[1-2]\d|0[1-9]|[1-9]| [1-9]\<close>\<close>

definition re_d :: matcher where
  "re_d s = two_chars (\<lambda>c. c = (cp CHR ''3'')) (char_range CHR ''0'' CHR ''1'') s
          @ two_chars (char_range CHR ''1'' CHR ''2'') isdigit s
          @ two_chars (\<lambda>c. c = (cp CHR ''0'')) is_1_9 s
          @ one_char is_1_9 s
          @ two_chars (\<lambda>c. c = (cp CHR '' '')) is_1_9 s"

text \<open>\<^verbatim>\<open>1[0-2]|0[1-9]|[1-9]\<close>\<close>

definition re_m :: matcher where
  "re_m s = two_chars (\<lambda>c. c = (cp CHR ''1'')) (char_range CHR ''0'' CHR ''2'') s
          @ two_chars (\<lambda>c. c = (cp CHR ''0'')) is_1_9 s
          @ one_char is_1_9 s"

text \<open>\<^verbatim>\<open>\d\d\d\d\<close>\<close>

definition re_Y :: matcher where
  "re_Y s = (case match_digits 4 s of Some r \<Rightarrow> [(take 4 s, r)] | None \<Rightarrow> [])"

text \<open>\<^verbatim>\<open>\.\<close>\<close>

definition re_dot :: "str \<Rightarrow> str list" where
  "re_dot s = (case s of c # r \<Rightarrow> if c = (cp CHR ''.'') then [r] else [] | [] \<Rightarrow> [])"

text \<open>
  \<^verbatim>\<open>format_regex.match(data_string)\<close>: the first way to match the whole expression,
  as the groups \<open>d\<close>, \<open>m\<close>, \<open>Y\<close> and the text after the match.
\<close>

definition format_regex_match :: "str \<Rightarrow> (str \<times> str \<times> str \<times> str) option" where
  "format_regex_match s =
     (case [(d, m, y, r5). (d, r1) \<leftarrow> re_d s, r2 \<leftarrow> re_dot r1, (m, r3) \<leftarrow> re_m r2,
                           r4 \<leftarrow> re_dot r3, (y, r5) \<leftarrow> re_Y r4]
      of [] \<Rightarrow> None | found # _ \<Rightarrow> Some found)"

text \<open>
  \<^verbatim>\<open>int(s)\<close> on a group: \<^verbatim>\<open>int\<close> ignores surrounding whitespace (the group
  \<open>d\<close> may start with a blank) and reads decimal digits of any script; a group holds
  nothing else.
\<close>

definition py_int :: "str \<Rightarrow> int" where
  "py_int s = foldl (\<lambda>a c. 10 * a + digit_val c) 0 (strip s)"

definition strptime :: "str \<Rightarrow> date result" where
  "strptime s =
     (case format_regex_match s of
        None \<Rightarrow> Inl (ValueError ((ascii ''time data '') @ s @ (ascii '' does not match format %d.%m.%Y'')))
      | Some (d, m, y, rest) \<Rightarrow>
          if rest \<noteq> [] then Inl (ValueError ((ascii ''unconverted data remains: '') @ rest))
          else date_new (py_int y) (py_int m) (py_int d))"

text \<open>
  \<^verbatim>\<open>d.strftime("%d.%m.%Y")\<close>: day and month on two digits, the year on four, padded
  with zeros.
\<close>

definition digit_char :: "int \<Rightarrow> code_point" where
  "digit_char n = (ascii ''0123456789'') ! nat n"

definition pad2 :: "int \<Rightarrow> str" where
  "pad2 n = [digit_char (n div 10 mod 10), digit_char (n mod 10)]"

definition pad4 :: "int \<Rightarrow> str" where
  "pad4 n = [digit_char (n div 1000 mod 10), digit_char (n div 100 mod 10),
             digit_char (n div 10 mod 10), digit_char (n mod 10)]"

definition strftime :: "date \<Rightarrow> str" where
  "strftime d = pad2 (day d) @ (ascii ''.'') @ pad2 (month d) @ (ascii ''.'') @ pad4 (year d)"

text \<open>
  \<^verbatim>\<open>Birthday.__init__\<close>: any \<^verbatim>\<open>ValueError\<close> of \<^verbatim>\<open>strptime\<close> is replaced by
  the constructor's own; the object keeps the string it was given.
\<close>

definition Birthday :: "str \<Rightarrow> str result" where
  "Birthday v =
     (case strptime v of
        Inl (ValueError _) \<Rightarrow> Inl (ValueError (ascii ''Invalid date format. Use DD.MM.YYYY''))
      | Inl e \<Rightarrow> Inl e
      | Inr _ \<Rightarrow> Inr v)"

subsection \<open>Records\<close>

record Record =
  name :: str
  phones :: "str list"
  birthday :: "str option"

text \<open>\<^verbatim>\<open>Record.__init__\<close>\<close>

definition Record_init :: "str \<Rightarrow> Record" where
  "Record_init nm = \<lparr>name = nm, phones = [], birthday = None\<rparr>"

text \<open>
  \<^verbatim>\<open>add_phone\<close>: the argument of \<^verbatim>\<open>append\<close> is evaluated first, so an exception
  of the constructor leaves the list as it was.
\<close>

definition add_phone :: "Record \<Rightarrow> str \<Rightarrow> Record \<times> unit result" where
  "add_phone r phone =
     (case Phone phone of
        Inl e \<Rightarrow> (r, Inl e)
      | Inr p \<Rightarrow> (r\<lparr>phones := phones r @ [p]\<rparr>, Inr ()))"


text \<open>
  The loop of \<^verbatim>\<open>edit_phone\<close>, over the phones that are left, with the flag
  \<^verbatim>\<open>found\<close>: it returns the phones after the assignments and the flag.
\<close>

fun edit_loop :: "str \<Rightarrow> str \<Rightarrow> str list \<Rightarrow> bool \<Rightarrow> str list \<times> bool" where
  "edit_loop old_phone new_phone [] found = ([], found)"
| "edit_loop old_phone new_phone (p # ps) found =
     (if p = old_phone
      then (case edit_loop old_phone new_phone ps True of (ps', f) \<Rightarrow> (new_phone # ps', f))
      else (case edit_loop old_phone new_phone ps found of (ps', f) \<Rightarrow> (p # ps', f)))"

definition edit_phone :: "Record \<Rightarrow> str \<Rightarrow> str \<Rightarrow> Record \<times> unit result" where
  "edit_phone r old_phone new_phone =
     (if \<not> fullmatch_d10 new_phone then (r, Inl (ValueError (ascii ''Phone must be 10 digits.'')))
      else case edit_loop old_phone new_phone (phones r) False of
             (ps, found) \<Rightarrow>
               if \<not> found then (r\<lparr>phones := ps\<rparr>, Inl (ValueError (ascii ''Phone not found.'')))
               else (r\<lparr>phones := ps\<rparr>, Inr ()))"


text \<open>
  \<^verbatim>\<open>add_birthday\<close>: the constructor runs before the assignment, so an exception
  leaves the attribute as it was.
\<close>

definition add_birthday :: "Record \<Rightarrow> str \<Rightarrow> Record \<times> unit result" where
  "add_birthday r b =
     (case Birthday b of
        Inl e \<Rightarrow> (r, Inl e)
      | Inr v \<Rightarrow> (r\<lparr>birthday := Some v\<rparr>, Inr ()))"

text \<open>\<^verbatim>\<open>sep.join(xs)\<close>\<close>

fun join :: "str \<Rightarrow> str list \<Rightarrow> str" where
  "join sep [] = []"
| "join sep [x] = x"
| "join sep (x # y # ys) = x @ sep @ join sep (y # ys)"

text \<open>\<^verbatim>\<open>Record.__str__\<close>; a field object is always true.\<close>

definition Record_str :: "Record \<Rightarrow> str" where
  "Record_str r =
     (ascii ''Contact name: '') @ name r
     @ (case birthday r of Some b \<Rightarrow> (ascii '', birthday: '') @ b | None \<Rightarrow> [])
     @ (ascii '', phones: '') @ join (ascii ''; '') (phones r)"

subsection \<open>The address book\<close>

text \<open>
  \<^verbatim>\<open>AddressBook\<close> is a \<^verbatim>\<open>UserDict\<close>; its \<^verbatim>\<open>data\<close> is a dictionary, which
  keeps its keys in the order of their first insertion. It is modelled by an association
  list in this order: \<open>AList.update\<close> replaces the value of a key where the key stands,
  or adds the key at the end. A record is stored by reference: a method called on a
  record found in the book changes the record in the book, which the model writes back
  under the key it was found with.
\<close>

type_synonym AddressBook = "(str \<times> Record) list"

definition add_record :: "AddressBook \<Rightarrow> Record \<Rightarrow> AddressBook" where
  "add_record book r = AList.update (name r) r book"

definition find_record :: "AddressBook \<Rightarrow> str \<Rightarrow> Record option" where
  "find_record book nm = map_of book nm"


text \<open>\<^verbatim>\<open>self.data.values()\<close>\<close>

definition book_values :: "AddressBook \<Rightarrow> Record list" where
  "book_values book = map snd book"

subsection \<open>The upcoming birthdays\<close>

text \<open>
  An entry of the result is the dictionary with the keys \<^verbatim>\<open>name\<close> and
  \<^verbatim>\<open>congratulation_date\<close>, modelled by the pair of their values.
  \<open>today\<close> stands for \<^verbatim>\<open>datetime.today().date()\<close>.

  Lines 93 to 96: the birthday moved to the year of \<open>today\<close>, or to the next year when
  that day is before \<open>today\<close>.
\<close>

definition this_year_bday :: "date \<Rightarrow> date \<Rightarrow> date result" where
  "this_year_bday today b_date =
     (case replace_year b_date (year today) of
        Inl e \<Rightarrow> Inl e
      | Inr t \<Rightarrow> if date_lt t today then replace_year t (year today + 1) else Inr t)"

text \<open>Lines 101 and 102: a date on a weekend is moved forward.\<close>

definition weekend_shift :: "date \<Rightarrow> date result" where
  "weekend_shift t = (if weekday t \<ge> 5 then date_add_days t (7 - weekday t) else Inr t)"

text \<open>
  The body of the loop for one record: \<open>None\<close> when the record adds nothing to
  \<^verbatim>\<open>upcoming\<close>, the entry it appends otherwise.
\<close>

definition upcoming_of :: "date \<Rightarrow> Record \<Rightarrow> (str \<times> str) option result" where
  "upcoming_of today r =
     (case birthday r of
        None \<Rightarrow> Inr None
      | Some v \<Rightarrow>
         (case strptime v of
            Inl e \<Rightarrow> Inl e
          | Inr b_date \<Rightarrow>
             (case this_year_bday today b_date of
                Inl e \<Rightarrow> Inl e
              | Inr t \<Rightarrow>
                 (let days_to_bday = days_between t today
                  in if 0 \<le> days_to_bday \<and> days_to_bday \<le> 7
                     then (case weekend_shift t of
                             Inl e \<Rightarrow> Inl e
                           | Inr c \<Rightarrow> Inr (Some (name r, strftime c)))
                     else Inr None))))"

fun upcoming_loop ::
  "date \<Rightarrow> Record list \<Rightarrow> (str \<times> str) list \<Rightarrow> (str \<times> str) list result" where
  "upcoming_loop today [] upcoming = Inr upcoming"
| "upcoming_loop today (r # rs) upcoming =
     (case upcoming_of today r of
        Inl e \<Rightarrow> Inl e
      | Inr None \<Rightarrow> upcoming_loop today rs upcoming
      | Inr (Some entry) \<Rightarrow> upcoming_loop today rs (upcoming @ [entry]))"

definition get_upcoming_birthdays :: "date \<Rightarrow> AddressBook \<Rightarrow> (str \<times> str) list result" where
  "get_upcoming_birthdays today book = upcoming_loop today (book_values book) []"

subsection \<open>The commands\<close>

text \<open>
  The decorator \<^verbatim>\<open>input_error\<close> turns the three exceptions it names into the
  string the command returns; any other exception passes through it.
\<close>

fun input_error :: "str result \<Rightarrow> str result" where
  "input_error (Inr s) = Inr s"
| "input_error (Inl (KeyError _)) = Inr (ascii ''Contact not found.'')"
| "input_error (Inl (ValueError msg)) = Inr msg"
| "input_error (Inl (IndexError _)) = Inr (ascii ''Invalid command format.'')"
| "input_error (Inl e) = Inl e"

text \<open>
  Each command is given as its body, which may raise, and as the decorated function.
  Both return the book after the call.
\<close>

definition add_contact_body :: "str list \<Rightarrow> AddressBook \<Rightarrow> AddressBook \<times> str result" where
  "add_contact_body args book =
     (if length args < 2 then (book, Inl (ValueError (ascii ''Give me name and phone please.'')))
      else
        let nm = args ! 0; phone = args ! 1
        in case find_record book nm of
             Some r \<Rightarrow>
               (case add_phone r phone of
                  (r', Inl e) \<Rightarrow> (AList.update nm r' book, Inl e)
                | (r', Inr _) \<Rightarrow>
                    (add_record (AList.update nm r' book) r', Inr (ascii ''Contact added/updated.'')))
           | None \<Rightarrow>
               (case add_phone (Record_init nm) phone of
                  (r', Inl e) \<Rightarrow> (book, Inl e)
                | (r', Inr _) \<Rightarrow> (add_record book r', Inr (ascii ''Contact added/updated.''))))"

definition add_contact :: "str list \<Rightarrow> AddressBook \<Rightarrow> AddressBook \<times> str result" where
  "add_contact args book = map_prod id input_error (add_contact_body args book)"

definition change_contact_body :: "str list \<Rightarrow> AddressBook \<Rightarrow> AddressBook \<times> str result" where
  "change_contact_body args book =
     (if length args \<noteq> 3 then (book, Inl (ValueError (ascii ''Give me name, old phone and new phone.'')))
      else
        let nm = args ! 0; old_phone = args ! 1; new_phone = args ! 2
        in case find_record book nm of
             Some r \<Rightarrow>
               (case edit_phone r old_phone new_phone of
                  (r', Inl e) \<Rightarrow> (AList.update nm r' book, Inl e)
                | (r', Inr _) \<Rightarrow> (AList.update nm r' book, Inr (ascii ''Phone changed.'')))
           | None \<Rightarrow> (book, Inl (KeyError (ascii ''Contact not found.''))))"

definition change_contact :: "str list \<Rightarrow> AddressBook \<Rightarrow> AddressBook \<times> str result" where
  "change_contact args book = map_prod id input_error (change_contact_body args book)"

definition show_phone_body :: "str list \<Rightarrow> AddressBook \<Rightarrow> str result" where
  "show_phone_body args book =
     (if args = [] then Inl (ValueError (ascii ''Enter contact name.''))
      else case find_record book (args ! 0) of
             Some r \<Rightarrow> Inr (join (ascii ''; '') (phones r))
           | None \<Rightarrow> Inl (KeyError (ascii ''Contact not found.'')))"

definition show_phone :: "str list \<Rightarrow> AddressBook \<Rightarrow> str result" where
  "show_phone args book = input_error (show_phone_body args book)"

definition show_all_body :: "AddressBook \<Rightarrow> str result" where
  "show_all_body book =
     (if book = [] then Inr (ascii ''No contacts found.'')
      else Inr (join [(cp (CHR 0x0A))] (map Record_str (book_values book))))"

definition show_all :: "AddressBook \<Rightarrow> str result" where
  "show_all book = input_error (show_all_body book)"

definition add_birthday_body :: "str list \<Rightarrow> AddressBook \<Rightarrow> AddressBook \<times> str result" where
  "add_birthday_body args book =
     (if length args \<noteq> 2
      then (book, Inl (ValueError (ascii ''Give me name and birthday in DD.MM.YYYY format.'')))
      else
        let nm = args ! 0; b = args ! 1
        in case find_record book nm of
             Some r \<Rightarrow>
               (case add_birthday r b of
                  (r', Inl e) \<Rightarrow> (AList.update nm r' book, Inl e)
                | (r', Inr _) \<Rightarrow> (AList.update nm r' book, Inr (ascii ''Birthday added.'')))
           | None \<Rightarrow> (book, Inl (KeyError (ascii ''Contact not found.''))))"

definition add_birthday_cmd :: "str list \<Rightarrow> AddressBook \<Rightarrow> AddressBook \<times> str result" where
  "add_birthday_cmd args book = map_prod id input_error (add_birthday_body args book)"

definition show_birthday_body :: "str list \<Rightarrow> AddressBook \<Rightarrow> str result" where
  "show_birthday_body args book =
     (if args = [] then Inl (ValueError (ascii ''Enter contact name.''))
      else case find_record book (args ! 0) of
             Some r \<Rightarrow>
               (case birthday r of Some b \<Rightarrow> Inr b | None \<Rightarrow> Inr (ascii ''No birthday set.''))
           | None \<Rightarrow> Inr (ascii ''Contact not found.''))"

definition show_birthday :: "str list \<Rightarrow> AddressBook \<Rightarrow> str result" where
  "show_birthday args book = input_error (show_birthday_body args book)"

definition birthdays_body :: "date \<Rightarrow> str list \<Rightarrow> AddressBook \<Rightarrow> str result" where
  "birthdays_body today args book =
     (case get_upcoming_birthdays today book of
        Inl e \<Rightarrow> Inl e
      | Inr upcoming \<Rightarrow>
          if upcoming = [] then Inr (ascii ''No birthdays in next week.'')
          else Inr (join [(cp (CHR 0x0A))] (map (\<lambda>(nm, cd). nm @ (ascii '': '') @ cd) upcoming)))"

definition birthdays :: "date \<Rightarrow> str list \<Rightarrow> AddressBook \<Rightarrow> str result" where
  "birthdays today args book = input_error (birthdays_body today args book)"

subsection \<open>The command loop\<close>

text \<open>\<^verbatim>\<open>str.split()\<close>: the words between runs of whitespace.\<close>

fun split_from :: "str \<Rightarrow> str \<Rightarrow> str list" where
  "split_from w [] = (if w = [] then [] else [w])"
| "split_from w (c # cs) =
     (if isspace c then (if w = [] then split_from [] cs else w # split_from [] cs)
      else split_from (w @ [c]) cs)"

definition str_split :: "str \<Rightarrow> str list" where
  "str_split s = split_from [] s"

definition parse_input :: "str \<Rightarrow> str list" where
  "parse_input input_str = str_split (strip input_str)"

text \<open>
  One turn of the loop of \<^verbatim>\<open>main\<close> on the line that \<^verbatim>\<open>input\<close> returned:
  the loop goes on with a book and the text printed, or leaves with the text printed, or
  an exception leaves \<^verbatim>\<open>main\<close> and ends the process.
\<close>

datatype outcome =
    Continue AddressBook str
  | Exit str
  | Crash py_error

definition printed :: "AddressBook \<times> str result \<Rightarrow> outcome" where
  "printed x = (case x of (book, Inr text) \<Rightarrow> Continue book text | (book, Inl e) \<Rightarrow> Crash e)"

definition main_step :: "date \<Rightarrow> AddressBook \<Rightarrow> str \<Rightarrow> outcome" where
  "main_step today book user_input =
     (case parse_input user_input of
        [] \<Rightarrow> Crash (ValueError (ascii ''not enough values to unpack (expected at least 1, got 0)''))
      | command # args \<Rightarrow>
          if command \<in> set [(ascii ''close''), ascii ''exit''] then Exit (ascii ''Good bye!'')
          else if command = (ascii ''hello'') then Continue book (ascii ''How can I help you?'')
          else if command = (ascii ''add'') then printed (add_contact args book)
          else if command = (ascii ''change'') then printed (change_contact args book)
          else if command = (ascii ''phone'') then printed (book, show_phone args book)
          else if command = (ascii ''all'') then printed (book, show_all book)
          else if command = (ascii ''add-birthday'') then printed (add_birthday_cmd args book)
          else if command = (ascii ''show-birthday'') then printed (book, show_birthday args book)
          else if command = (ascii ''birthdays'') then printed (book, birthdays today args book)
          else Continue book (ascii ''Invalid command.''))"

text \<open>
  The loop over the lines typed, with the texts printed so far: it ends with the
  outcome of the last turn taken (\<open>Continue\<close> when the lines are used up).
\<close>

fun main_loop :: "date \<Rightarrow> AddressBook \<Rightarrow> str list \<Rightarrow> str list \<Rightarrow> str list \<times> outcome" where
  "main_loop today book out [] = (out, Continue book [])"
| "main_loop today book out (user_input # rest) =
     (case main_step today book user_input of
        Continue book' text \<Rightarrow> main_loop today book' (out @ [text]) rest
      | Exit text \<Rightarrow> (out @ [text], Exit text)
      | Crash e \<Rightarrow> (out, Crash e))"

definition main :: "date \<Rightarrow> str list \<Rightarrow> str list \<times> outcome" where
  "main today lines = main_loop today [] [(ascii ''Welcome to the assistant bot!'')] lines"

subsection \<open>Reachable states\<close>



text \<open>
  The words of the specification: a string of exactly 10 digits, a digit being a decimal
  digit (of any script; \<^verbatim>\<open>0\<close> to \<^verbatim>\<open>9\<close> are the ones of ASCII).
\<close>

definition ten_digits :: "str \<Rightarrow> bool" where
  "ten_digits s = (length s = 10 \<and> (\<forall>c\<in>set s. isdigit c))"


subsection \<open>The words of the specification about dates\<close>

text \<open>
  \<open>split_on c s\<close> cuts \<open>s\<close> at every \<open>c\<close>. \<open>calendar_date\<close> holds of a year from 1 to
  9999, a month and a day that the Gregorian calendar has.

  \<open>strict_date_text\<close> is the strict format DD.MM.YYYY of a date of the calendar: two
  digits, a dot, two digits, a dot, four digits, the digits being \<^verbatim>\<open>0\<close> to
  \<^verbatim>\<open>9\<close>.

  \<open>date_text\<close> is a wider set of texts, a day, a dot, a month, a dot and a year that
  denote a date of the calendar, where
  \<^item> the day is \<^verbatim>\<open>1\<close> to \<^verbatim>\<open>9\<close>, alone or after \<^verbatim>\<open>0\<close> or a blank, or
    \<^verbatim>\<open>1\<close> or \<^verbatim>\<open>2\<close> followed by a decimal digit of any script, or \<^verbatim>\<open>30\<close> or
    \<^verbatim>\<open>31\<close>;
  \<^item> the month is \<^verbatim>\<open>1\<close> to \<^verbatim>\<open>9\<close>, alone or after \<^verbatim>\<open>0\<close>, or
    \<^verbatim>\<open>10\<close>, \<^verbatim>\<open>11\<close> or \<^verbatim>\<open>12\<close>;
  \<^item> the year is four decimal digits of any script.
\<close>

fun split_on :: "code_point \<Rightarrow> str \<Rightarrow> str list" where
  "split_on c [] = [[]]"
| "split_on c (x # xs) =
     (if x = c then [] # split_on c xs
      else (case split_on c xs of w # ws \<Rightarrow> (x # w) # ws | [] \<Rightarrow> [[x]]))"

definition calendar_date :: "int \<Rightarrow> int \<Rightarrow> int \<Rightarrow> bool" where
  "calendar_date y m d =
     (1 \<le> y \<and> y \<le> 9999 \<and> 1 \<le> m \<and> m \<le> 12 \<and> 1 \<le> d \<and> d \<le> days_in_month y m)"

definition strict_date_text :: "str \<Rightarrow> bool" where
  "strict_date_text s =
     (case split_on (cp CHR ''.'') s of
        [d, m, y] \<Rightarrow> length d = 2 \<and> length m = 2 \<and> length y = 4
                     \<and> list_all (char_range CHR ''0'' CHR ''9'') (d @ m @ y)
                     \<and> calendar_date (py_int y) (py_int m) (py_int d)
      | _ \<Rightarrow> False)"

definition day_text :: "str \<Rightarrow> bool" where
  "day_text d =
     (case d of
        [a] \<Rightarrow> is_1_9 a
      | [a, b] \<Rightarrow> ((a = cp CHR ''0'' \<or> a = cp CHR '' '') \<and> is_1_9 b)
                  \<or> (char_range CHR ''1'' CHR ''2'' a \<and> isdigit b)
                  \<or> (a = cp CHR ''3'' \<and> char_range CHR ''0'' CHR ''1'' b)
      | _ \<Rightarrow> False)"

definition month_text :: "str \<Rightarrow> bool" where
  "month_text m =
     (case m of
        [a] \<Rightarrow> is_1_9 a
      | [a, b] \<Rightarrow> (a = cp CHR ''0'' \<and> is_1_9 b)
                  \<or> (a = cp CHR ''1'' \<and> char_range CHR ''0'' CHR ''2'' b)
      | _ \<Rightarrow> False)"

definition year_text :: "str \<Rightarrow> bool" where
  "year_text y = (length y = 4 \<and> list_all isdigit y)"

definition date_text :: "str \<Rightarrow> bool" where
  "date_text s =
     (case split_on (cp CHR ''.'') s of
        [d, m, y] \<Rightarrow> day_text d \<and> month_text m \<and> year_text y
                     \<and> calendar_date (py_int y) (py_int m) (py_int d)
      | _ \<Rightarrow> False)"



section \<open>Properties\<close>

subsection \<open>The phone validator\<close>

lemma match_digits_Some_iff:
  "match_digits n s = Some r \<longleftrightarrow> (\<exists>ds. s = ds @ r \<and> length ds = n \<and> (\<forall>c\<in>set ds. isdigit c))"
proof (induction n s rule: match_digits.induct)
  case (1 s)
  show ?case by auto
next
  case (2 n)
  show ?case by auto
next
  case (3 n c cs)
  show ?case
  proof (cases "isdigit c")
    case False
    then show ?thesis by (auto simp: Cons_eq_append_conv)
  next
    case True
    show ?thesis
    proof
      assume "match_digits (Suc n) (c # cs) = Some r"
      with True 3 obtain ds where "cs = ds @ r" "length ds = n" "\<forall>x\<in>set ds. isdigit x"
        by auto
      with True show "\<exists>ds. c # cs = ds @ r \<and> length ds = Suc n \<and> (\<forall>x\<in>set ds. isdigit x)"
        by (intro exI [of _ "c # ds"]) simp
    next
      assume "\<exists>ds. c # cs = ds @ r \<and> length ds = Suc n \<and> (\<forall>x\<in>set ds. isdigit x)"
      then obtain ds where ds: "c # cs = ds @ r" "length ds = Suc n" "\<forall>x\<in>set ds. isdigit x"
        by blast
      then obtain ds' where "ds = c # ds'" "cs = ds' @ r"
        by (cases ds) auto
      with ds True 3 show "match_digits (Suc n) (c # cs) = Some r"
        by auto
    qed
  qed
qed

lemma fullmatch_d10_iff:
  "fullmatch_d10 s \<longleftrightarrow> length s = 10 \<and> (\<forall>c\<in>set s. isdigit c)"
  unfolding fullmatch_d10_def match_digits_Some_iff by auto

lemma ascii_digit_isdigit: "char_range CHR ''0'' CHR ''9'' c \<Longrightarrow> isdigit c"
  by (simp add: char_range_def isdigit_def zero_of_def DECIMAL_ZEROS_def)



subsection \<open>The date validator\<close>

lemma in_two_chars:
  "(d, r) \<in> set (two_chars P Q s) \<longleftrightarrow> (\<exists>a b. d = [a, b] \<and> s = a # b # r \<and> P a \<and> Q b)"
  by (auto simp: two_chars_def split: list.splits)

lemma in_one_char:
  "(d, r) \<in> set (one_char P s) \<longleftrightarrow> (\<exists>a. d = [a] \<and> s = a # r \<and> P a)"
  by (auto simp: one_char_def split: list.splits)

lemma in_re_dot: "r \<in> set (re_dot s) \<longleftrightarrow> s = (cp CHR ''.'') # r"
  by (auto simp: re_dot_def split: list.splits)

lemma in_re_d:
  "(d, r) \<in> set (re_d s) \<longleftrightarrow> s = d @ r \<and> day_text d"
  unfolding re_d_def set_append Un_iff in_two_chars in_one_char
  by (auto simp: day_text_def is_1_9_def split: list.splits)

lemma in_re_m:
  "(m, r) \<in> set (re_m s) \<longleftrightarrow> s = m @ r \<and> month_text m"
  unfolding re_m_def set_append Un_iff in_two_chars in_one_char
  by (auto simp: month_text_def is_1_9_def split: list.splits)

lemma in_re_Y:
  "(y, r) \<in> set (re_Y s) \<longleftrightarrow> s = y @ r \<and> year_text y"
proof
  assume "(y, r) \<in> set (re_Y s)"
  then have m: "match_digits 4 s = Some r" and y: "y = take 4 s"
    by (auto simp: re_Y_def split: option.splits)
  from m obtain ds where "s = ds @ r" "length ds = 4" "\<forall>c\<in>set ds. isdigit c"
    unfolding match_digits_Some_iff by blast
  with y show "s = y @ r \<and> year_text y"
    by (simp add: year_text_def list_all_iff)
next
  assume a: "s = y @ r \<and> year_text y"
  then have "match_digits 4 s = Some r"
    unfolding match_digits_Some_iff by (auto simp: year_text_def list_all_iff)
  with a show "(y, r) \<in> set (re_Y s)"
    by (simp add: re_Y_def year_text_def)
qed

lemma in_concat_map: "x \<in> set (concat (map f xs)) \<longleftrightarrow> (\<exists>a. a \<in> set xs \<and> x \<in> set (f a))"
  by auto

lemma in_map_group:
  "(d', m', y', r') \<in> set (map (\<lambda>(y, r5). (d, m, y, r5)) ys)
   \<longleftrightarrow> d' = d \<and> m' = m \<and> (y', r') \<in> set ys"
  by auto

lemma in_format_regex:
  "(d, m, y, r) \<in> set [(d, m, y, r5). (d, r1) \<leftarrow> re_d s, r2 \<leftarrow> re_dot r1, (m, r3) \<leftarrow> re_m r2,
                           r4 \<leftarrow> re_dot r3, (y, r5) \<leftarrow> re_Y r4]
   \<longleftrightarrow> s = d @ (ascii ''.'') @ m @ (ascii ''.'') @ y @ r \<and> day_text d \<and> month_text m \<and> year_text y"
  unfolding in_concat_map split_paired_Ex case_prod_conv in_map_group
    in_re_d in_re_m in_re_Y in_re_dot
  by auto

lemma isdigit_ge_48: "isdigit c \<Longrightarrow> 48 \<le> c"
proof -
  assume "isdigit c"
  then obtain z where "z \<in> set DECIMAL_ZEROS" "z \<le> c"
    by (auto simp: isdigit_def zero_of_def find_None_iff)
  moreover have "\<forall>z\<in>set DECIMAL_ZEROS. 48 \<le> z"
    by (simp add: DECIMAL_ZEROS_def)
  ultimately show ?thesis by force
qed

lemma isdigit_not_dot: "isdigit c \<Longrightarrow> c \<noteq> cp CHR ''.''"
  by (auto dest: isdigit_ge_48)

lemma day_text_no_dot: "day_text d \<Longrightarrow> cp CHR ''.'' \<notin> set d"
  by (auto simp: day_text_def is_1_9_def char_range_def split: list.splits
      dest: isdigit_ge_48)

lemma month_text_no_dot: "month_text m \<Longrightarrow> cp CHR ''.'' \<notin> set m"
  by (auto simp: month_text_def is_1_9_def char_range_def split: list.splits)

lemma year_text_no_dot: "year_text y \<Longrightarrow> cp CHR ''.'' \<notin> set y"
proof
  assume "year_text y" and "cp CHR ''.'' \<in> set y"
  then have "isdigit (cp CHR ''.'')"
    by (simp add: year_text_def list_all_iff)
  from isdigit_ge_48 [OF this] show False by simp
qed

lemma first_separator:
  "c \<notin> set d \<Longrightarrow> c \<notin> set d' \<Longrightarrow> d @ c # r = d' @ c # r' \<Longrightarrow> d = d' \<and> r = r'"
proof (induction d arbitrary: d')
  case Nil
  then show ?case by (cases d') auto
next
  case (Cons x d)
  then show ?case by (cases d') auto
qed

lemma date_fields_unique:
  assumes "d @ (ascii ''.'') @ m @ (ascii ''.'') @ y @ r = d' @ (ascii ''.'') @ m' @ (ascii ''.'') @ y' @ r'"
    and "day_text d" "month_text m" "year_text y"
    and "day_text d'" "month_text m'" "year_text y'"
  shows "d = d' \<and> m = m' \<and> y = y' \<and> r = r'"
proof -
  from assms(1) have e: "d @ (cp CHR ''.'') # (m @ (ascii ''.'') @ y @ r) = d' @ (cp CHR ''.'') # (m' @ (ascii ''.'') @ y' @ r')"
    by simp
  from first_separator [OF day_text_no_dot [OF assms(2)] day_text_no_dot [OF assms(5)] e]
  have d: "d = d'" and e2: "m @ (cp CHR ''.'') # (y @ r) = m' @ (cp CHR ''.'') # (y' @ r')"
    by simp_all
  from first_separator [OF month_text_no_dot [OF assms(3)] month_text_no_dot [OF assms(6)] e2]
  have m: "m = m'" and e3: "y @ r = y' @ r'"
    by simp_all
  from e3 assms(4,7) have "y = y' \<and> r = r'"
    by (simp add: year_text_def)
  with d m show ?thesis by simp
qed

lemma format_regex_match_iff:
  "format_regex_match s = Some (d, m, y, r)
   \<longleftrightarrow> s = d @ (ascii ''.'') @ m @ (ascii ''.'') @ y @ r \<and> day_text d \<and> month_text m \<and> year_text y"
proof -
  let ?L = "[(d, m, y, r5). (d, r1) \<leftarrow> re_d s, r2 \<leftarrow> re_dot r1, (m, r3) \<leftarrow> re_m r2,
                           r4 \<leftarrow> re_dot r3, (y, r5) \<leftarrow> re_Y r4]"
  have fm: "format_regex_match s = (case ?L of [] \<Rightarrow> None | found # _ \<Rightarrow> Some found)"
    by (simp add: format_regex_match_def)
  show ?thesis
  proof
    assume "format_regex_match s = Some (d, m, y, r)"
    with fm have "(d, m, y, r) \<in> set ?L"
      by (cases ?L) simp_all
    then show "s = d @ (ascii ''.'') @ m @ (ascii ''.'') @ y @ r \<and> day_text d \<and> month_text m \<and> year_text y"
      by (simp only: in_format_regex)
  next
    assume a: "s = d @ (ascii ''.'') @ m @ (ascii ''.'') @ y @ r \<and> day_text d \<and> month_text m \<and> year_text y"
    then have mem: "(d, m, y, r) \<in> set ?L"
      by (simp only: in_format_regex)
    then obtain x xs where L: "?L = x # xs"
      by (cases ?L) simp_all
    obtain d' m' y' r' where x: "x = (d', m', y', r')"
      by (cases x) auto
    from L x have "(d', m', y', r') \<in> set ?L" by simp
    then have a': "s = d' @ (ascii ''.'') @ m' @ (ascii ''.'') @ y' @ r' \<and> day_text d' \<and> month_text m' \<and> year_text y'"
      by (simp only: in_format_regex)
    from a a' date_fields_unique [of d m y r d' m' y' r'] have "x = (d, m, y, r)"
      using x by auto
    with fm L show "format_regex_match s = Some (d, m, y, r)" by simp
  qed
qed

lemma split_on_no_sep: "c \<notin> set y \<Longrightarrow> split_on c y = [y]"
  by (induction y) auto

lemma split_on_append: "c \<notin> set d \<Longrightarrow> split_on c (d @ c # r) = d # split_on c r"
  by (induction d) auto

lemma split_on_not_Nil: "split_on c s \<noteq> []"
  by (induction s) (auto split: list.splits)

lemma split_on_1: "split_on c s = [y] \<Longrightarrow> s = y \<and> c \<notin> set y"
proof (induction s arbitrary: y)
  case Nil
  then show ?case by simp
next
  case (Cons x s)
  then show ?case
    by (auto split: if_splits list.splits simp: split_on_not_Nil)
qed

lemma split_on_Cons:
  "split_on c s = d # w # ws \<Longrightarrow> \<exists>r. s = d @ c # r \<and> c \<notin> set d \<and> split_on c r = w # ws"
proof (induction s arbitrary: d)
  case Nil
  then show ?case by simp
next
  case (Cons x s)
  show ?case
  proof (cases "x = c")
    case True
    with Cons.prems show ?thesis by auto
  next
    case False
    with Cons.prems obtain d0 where d0: "split_on c s = d0 # w # ws" "d = x # d0"
      by (auto split: list.splits)
    from Cons.IH [OF d0(1)] obtain r where "s = d0 @ c # r" "c \<notin> set d0" "split_on c r = w # ws"
      by blast
    with d0 False show ?thesis by auto
  qed
qed

lemma split_on_3_iff:
  "split_on c s = [d, m, y]
   \<longleftrightarrow> s = d @ [c] @ m @ [c] @ y \<and> c \<notin> set d \<and> c \<notin> set m \<and> c \<notin> set y"
proof
  assume a: "split_on c s = [d, m, y]"
  from split_on_Cons [OF a] obtain r where r: "s = d @ c # r" "c \<notin> set d" "split_on c r = [m, y]"
    by blast
  from split_on_Cons [OF r(3)] obtain r' where r': "r = m @ c # r'" "c \<notin> set m" "split_on c r' = [y]"
    by blast
  from split_on_1 [OF r'(3)] r r' show
    "s = d @ [c] @ m @ [c] @ y \<and> c \<notin> set d \<and> c \<notin> set m \<and> c \<notin> set y"
    by simp
next
  assume "s = d @ [c] @ m @ [c] @ y \<and> c \<notin> set d \<and> c \<notin> set m \<and> c \<notin> set y"
  then show "split_on c s = [d, m, y]"
    by (simp add: split_on_append split_on_no_sep)
qed

lemma date_new_iff:
  "date_new y m d = Inr dt \<longleftrightarrow> calendar_date y m d \<and> dt = \<lparr>year = y, month = m, day = d\<rparr>"
  by (auto simp: date_new_def calendar_date_def MINYEAR_def MAXYEAR_def)

lemma date_new_error: "date_new y m d = Inl e \<Longrightarrow> \<exists>msg. e = ValueError msg"
  by (auto simp: date_new_def split: if_splits)

lemma strptime_error: "strptime s = Inl e \<Longrightarrow> \<exists>msg. e = ValueError msg"
  by (auto simp: strptime_def split: option.splits prod.splits if_splits dest: date_new_error)

lemma strptime_Inr_iff:
  "strptime s = Inr dt
   \<longleftrightarrow> (\<exists>d m y. split_on (cp CHR ''.'') s = [d, m, y] \<and> day_text d \<and> month_text m \<and> year_text y
          \<and> calendar_date (py_int y) (py_int m) (py_int d)
          \<and> dt = \<lparr>year = py_int y, month = py_int m, day = py_int d\<rparr>)"
proof
  assume a: "strptime s = Inr dt"
  then obtain d m y where f: "format_regex_match s = Some (d, m, y, [])"
    and n: "date_new (py_int y) (py_int m) (py_int d) = Inr dt"
    by (auto simp: strptime_def split: option.splits prod.splits if_splits)
  from f have s: "s = d @ (ascii ''.'') @ m @ (ascii ''.'') @ y" and t: "day_text d" "month_text m" "year_text y"
    unfolding format_regex_match_iff by simp_all
  from s t have "split_on (cp CHR ''.'') s = [d, m, y]"
    unfolding split_on_3_iff
    using day_text_no_dot [OF t(1)] month_text_no_dot [OF t(2)] year_text_no_dot [OF t(3)]
    by simp
  with t n show "\<exists>d m y. split_on (cp CHR ''.'') s = [d, m, y] \<and> day_text d \<and> month_text m \<and> year_text y
          \<and> calendar_date (py_int y) (py_int m) (py_int d)
          \<and> dt = \<lparr>year = py_int y, month = py_int m, day = py_int d\<rparr>"
    unfolding date_new_iff by blast
next
  assume "\<exists>d m y. split_on (cp CHR ''.'') s = [d, m, y] \<and> day_text d \<and> month_text m \<and> year_text y
          \<and> calendar_date (py_int y) (py_int m) (py_int d)
          \<and> dt = \<lparr>year = py_int y, month = py_int m, day = py_int d\<rparr>"
  then obtain d m y where sp: "split_on (cp CHR ''.'') s = [d, m, y]"
    and t: "day_text d" "month_text m" "year_text y"
    and c: "calendar_date (py_int y) (py_int m) (py_int d)"
    and dt: "dt = \<lparr>year = py_int y, month = py_int m, day = py_int d\<rparr>"
    by blast
  from sp have "s = d @ (ascii ''.'') @ m @ (ascii ''.'') @ y @ []"
    unfolding split_on_3_iff by simp
  with t have "format_regex_match s = Some (d, m, y, [])"
    unfolding format_regex_match_iff by simp
  with c dt show "strptime s = Inr dt"
    by (simp add: strptime_def date_new_iff)
qed

lemma strptime_succeeds_iff: "(\<exists>dt. strptime s = Inr dt) \<longleftrightarrow> date_text s"
  unfolding strptime_Inr_iff date_text_def
  by (auto split: list.splits)

lemma Birthday_eq:
  "Birthday s = (if date_text s then Inr s
                 else Inl (ValueError (ascii ''Invalid date format. Use DD.MM.YYYY'')))"
proof (cases "strptime s")
  case (Inl e)
  then have "\<not> date_text s"
    using strptime_succeeds_iff [of s] by auto
  with Inl strptime_error [OF Inl] show ?thesis
    by (auto simp: Birthday_def)
next
  case (Inr dt)
  then have "date_text s"
    using strptime_succeeds_iff [of s] by auto
  with Inr show ?thesis by (simp add: Birthday_def)
qed

lemma ascii_digit_val: "char_range CHR ''0'' CHR ''9'' c \<Longrightarrow> digit_val c = c - 48"
  by (simp add: digit_val_def zero_of_def DECIMAL_ZEROS_def char_range_def)

lemma ascii_digit_not_space: "char_range CHR ''0'' CHR ''9'' c \<Longrightarrow> \<not> isspace c"
  by (auto simp: isspace_def WHITESPACE_def char_range_def)

lemma py_int_two_ascii_digits:
  assumes "char_range CHR ''0'' CHR ''9'' a" "char_range CHR ''0'' CHR ''9'' b"
  shows "py_int [a, b] = 10 * (a - 48) + (b - 48)"
  using assms ascii_digit_not_space [OF assms(1)] ascii_digit_not_space [OF assms(2)]
  by (simp add: py_int_def strip_def ascii_digit_val)

lemma days_in_month_le_31: "1 \<le> m \<Longrightarrow> m \<le> 12 \<Longrightarrow> days_in_month y m \<le> 31"
proof -
  assume "1 \<le> m" "m \<le> 12"
  then have "m = 1 \<or> m = 2 \<or> m = 3 \<or> m = 4 \<or> m = 5 \<or> m = 6 \<or> m = 7 \<or> m = 8 \<or> m = 9
      \<or> m = 10 \<or> m = 11 \<or> m = 12"
    by arith
  then show ?thesis
    by (elim disjE) (simp_all add: days_in_month_def DAYS_IN_MONTH_def)
qed

lemma strict_date_text_accepted: "strict_date_text s \<Longrightarrow> date_text s"
proof -
  assume a: "strict_date_text s"
  then obtain d m y where sp: "split_on (cp CHR ''.'') s = [d, m, y]"
    by (auto simp: strict_date_text_def split: list.splits)
  with a have l: "length d = 2" "length m = 2" "length y = 4"
    and dg: "list_all (char_range CHR ''0'' CHR ''9'') (d @ m @ y)"
    and c: "calendar_date (py_int y) (py_int m) (py_int d)"
    by (simp_all add: strict_date_text_def)
  from l(1) obtain d1 d2 where d: "d = [d1, d2]"
    by (cases d; cases "tl d") auto
  from l(2) obtain m1 m2 where m: "m = [m1, m2]"
    by (cases m; cases "tl m") auto
  from dg d m have r: "char_range CHR ''0'' CHR ''9'' d1" "char_range CHR ''0'' CHR ''9'' d2"
      "char_range CHR ''0'' CHR ''9'' m1" "char_range CHR ''0'' CHR ''9'' m2"
    by simp_all
  from c have dm: "1 \<le> py_int d" "1 \<le> py_int m" "py_int m \<le> 12"
      "py_int d \<le> days_in_month (py_int y) (py_int m)"
    by (simp_all add: calendar_date_def)
  from dm(2,3) have "days_in_month (py_int y) (py_int m) \<le> 31"
    by (rule days_in_month_le_31)
  with dm have d31: "py_int d \<le> 31" by simp
  have vd: "py_int d = 10 * (d1 - 48) + (d2 - 48)"
    unfolding d using r(1,2) by (rule py_int_two_ascii_digits)
  have vm: "py_int m = 10 * (m1 - 48) + (m2 - 48)"
    unfolding m using r(3,4) by (rule py_int_two_ascii_digits)
  have "isdigit d2" using r(2) by (rule ascii_digit_isdigit)
  with dm(1) d31 vd r(1,2) have "day_text d"
    unfolding d by (auto simp: day_text_def is_1_9_def char_range_def)
  moreover from dm(2,3) vm r(3,4) have "month_text m"
    unfolding m by (auto simp: month_text_def is_1_9_def char_range_def)
  moreover from dg l(3) have "year_text y"
    by (auto simp: year_text_def list_all_iff ascii_digit_isdigit)
  ultimately show ?thesis using sp c by (simp add: date_text_def)
qed

text \<open>
  C4 as stated fails: the text \<^verbatim>\<open>1.2.2000\<close>, with a one-digit day and a
  one-digit month, is accepted.
\<close>

theorem Birthday_strict_format_counterexample:
  "Birthday (ascii ''1.2.2000'') = Inr (ascii ''1.2.2000'')
   \<and> \<not> strict_date_text (ascii ''1.2.2000'')"
  by code_simp

text \<open>
  C4, amended. Constructing a birthday from a string \<open>s\<close> succeeds, and keeps \<open>s\<close>,
  exactly when \<open>s\<close> is a day, a dot, a month, a dot and a year that denote a date of the
  calendar (years 1 to 9999), where the day is \<^verbatim>\<open>1\<close> to \<^verbatim>\<open>9\<close>, alone or after
  \<^verbatim>\<open>0\<close> or a blank, or \<^verbatim>\<open>1\<close> or \<^verbatim>\<open>2\<close> followed by a decimal digit, or
  \<^verbatim>\<open>30\<close> or \<^verbatim>\<open>31\<close>; the month is \<^verbatim>\<open>1\<close> to \<^verbatim>\<open>9\<close>, alone or after
  \<^verbatim>\<open>0\<close>, or \<^verbatim>\<open>10\<close>, \<^verbatim>\<open>11\<close> or \<^verbatim>\<open>12\<close>; and the year is exactly four
  decimal digits (decimal digits of any script where the text says decimal digit, the
  digits of ASCII elsewhere). Every other string fails with the validation error
  \<^verbatim>\<open>ValueError("Invalid date format. Use DD.MM.YYYY")\<close>. Every text in the strict
  format DD.MM.YYYY, written with \<^verbatim>\<open>0\<close> to \<^verbatim>\<open>9\<close>, that denotes a date of the
  calendar is among the accepted ones.
\<close>

theorem Birthday_accepts_date_text:
  "((\<exists>v. Birthday s = Inr v) \<longleftrightarrow> date_text s)
   \<and> (date_text s \<longrightarrow> Birthday s = Inr s)
   \<and> (\<not> date_text s
        \<longrightarrow> Birthday s = Inl (ValueError (ascii ''Invalid date format. Use DD.MM.YYYY'')))
   \<and> (strict_date_text s \<longrightarrow> date_text s)"
  using strict_date_text_accepted [of s] by (simp add: Birthday_eq)

theorem Birthday_accepts_date_text_witness:
  "strict_date_text (ascii ''05.03.1990'')
   \<and> Birthday (ascii ''05.03.1990'') = Inr (ascii ''05.03.1990'')
   \<and> date_text (ascii '' 5.3.1990'') \<and> Birthday (ascii '' 5.3.1990'') = Inr (ascii '' 5.3.1990'')
   \<and> date_text ([49, 1634] @ ascii ''.2.'' @ [1634, 1632, 1632, 1632])
   \<and> Birthday ([49, 1634] @ ascii ''.2.'' @ [1634, 1632, 1632, 1632])
       = Inr ([49, 1634] @ ascii ''.2.'' @ [1634, 1632, 1632, 1632])
   \<and> \<not> date_text ([1635, 1633] @ ascii ''.12.2000'')
   \<and> Birthday ([1635, 1633] @ ascii ''.12.2000'')
       = Inl (ValueError (ascii ''Invalid date format. Use DD.MM.YYYY''))
   \<and> \<not> date_text (ascii ''31.02.2020'')
   \<and> Birthday (ascii ''31.02.2020'')
       = Inl (ValueError (ascii ''Invalid date format. Use DD.MM.YYYY''))
   \<and> \<not> date_text (ascii ''1990-03-05'')
   \<and> Birthday (ascii ''1990-03-05'')
       = Inl (ValueError (ascii ''Invalid date format. Use DD.MM.YYYY''))"
proof -
  have a: "strict_date_text (ascii ''05.03.1990'')" by code_simp
  have b: "date_text (ascii '' 5.3.1990'')" by code_simp
  have c: "date_text ([49, 1634] @ ascii ''.2.'' @ [1634, 1632, 1632, 1632])" by code_simp
  have d: "\<not> date_text ([1635, 1633] @ ascii ''.12.2000'')" by code_simp
  have e: "\<not> date_text (ascii ''31.02.2020'')" by code_simp
  have f: "\<not> date_text (ascii ''1990-03-05'')" by code_simp
  from a b c d e f Birthday_accepts_date_text [of "ascii ''05.03.1990''"]
    Birthday_accepts_date_text [of "ascii '' 5.3.1990''"]
    Birthday_accepts_date_text [of "[49, 1634] @ ascii ''.2.'' @ [1634, 1632, 1632, 1632]"]
    Birthday_accepts_date_text [of "[1635, 1633] @ ascii ''.12.2000''"]
    Birthday_accepts_date_text [of "ascii ''31.02.2020''"]
    Birthday_accepts_date_text [of "ascii ''1990-03-05''"]
  show ?thesis by blast
qed

text \<open>
  C9 as stated fails: \<^verbatim>\<open>1.2.2000\<close> is not a valid DD.MM.YYYY string, and
  \<^verbatim>\<open>add_birthday\<close> with it replaces the birthday that the record had.
\<close>

theorem add_birthday_invalid_counterexample:
  "\<not> strict_date_text (ascii ''1.2.2000'')
   \<and> add_birthday \<lparr>name = ascii ''Bob'', phones = [], birthday = Some (ascii ''01.01.1990'')\<rparr>
        (ascii ''1.2.2000'')
       = (\<lparr>name = ascii ''Bob'', phones = [], birthday = Some (ascii ''1.2.2000'')\<rparr>, Inr ())"
  by code_simp

text \<open>
  C9, amended. \<^verbatim>\<open>add_birthday\<close> with a value among the date texts that the
  constructor accepts (every valid string DD.MM.YYYY, and the other texts of C4, amended)
  stores the new value in place of the birthday the record had, so the last write wins
  and a record holds at most one birthday; with any other value the call fails with the
  validation error and leaves the record, and so the birthday stored before, unchanged.
\<close>

theorem add_birthday_last_write_wins:
  "add_birthday r b =
     (if date_text b then (r\<lparr>birthday := Some b\<rparr>, Inr ())
      else (r, Inl (ValueError (ascii ''Invalid date format. Use DD.MM.YYYY''))))
   \<and> (strict_date_text b \<longrightarrow> date_text b)"
  using strict_date_text_accepted [of b]
  by (simp add: add_birthday_def Birthday_eq)

theorem add_birthday_last_write_wins_witness:
  "strict_date_text (ascii ''05.03.1991'')
   \<and> add_birthday \<lparr>name = ascii ''Bob'', phones = [], birthday = Some (ascii ''01.01.1990'')\<rparr>
        (ascii ''05.03.1991'')
     = (\<lparr>name = ascii ''Bob'', phones = [], birthday = Some (ascii ''05.03.1991'')\<rparr>, Inr ())
   \<and> \<not> date_text (ascii ''31.02.2020'')
   \<and> add_birthday \<lparr>name = ascii ''Bob'', phones = [], birthday = Some (ascii ''01.01.1990'')\<rparr>
        (ascii ''31.02.2020'')
     = (\<lparr>name = ascii ''Bob'', phones = [], birthday = Some (ascii ''01.01.1990'')\<rparr>,
        Inl (ValueError (ascii ''Invalid date format. Use DD.MM.YYYY'')))"
proof -
  have a: "strict_date_text (ascii ''05.03.1991'')" by code_simp
  have b: "\<not> date_text (ascii ''31.02.2020'')" by code_simp
  from a b
    add_birthday_last_write_wins [of
      "\<lparr>name = ascii ''Bob'', phones = [], birthday = Some (ascii ''01.01.1990'')\<rparr>"
      "ascii ''05.03.1991''"]
    add_birthday_last_write_wins [of
      "\<lparr>name = ascii ''Bob'', phones = [], birthday = Some (ascii ''01.01.1990'')\<rparr>"
      "ascii ''31.02.2020''"]
  show ?thesis by simp
qed

subsection \<open>Records: editing and adding phones\<close>






lemma Phone_ten_digits: "ten_digits p \<Longrightarrow> Phone p = Inr p"
  by (simp add: Phone_def fullmatch_d10_iff ten_digits_def)

lemma add_phone_ten_digits:
  "ten_digits p \<Longrightarrow> add_phone r p = (r\<lparr>phones := phones r @ [p]\<rparr>, Inr ())"
  by (simp add: add_phone_def Phone_ten_digits)

lemma update_update_same: "AList.update k v (AList.update k v' al) = AList.update k v al"
  by (induction al) auto

lemma map_fst_update_present:
  "map_of al k = Some v' \<Longrightarrow> map fst (AList.update k v al) = map fst al"
  by (induction al) (auto split: if_splits)



subsection \<open>The command \<^verbatim>\<open>add\<close> on an existing name\<close>

text \<open>
  C6. In a book that holds a record named \<open>n\<close>, the command \<^verbatim>\<open>add n p\<close> with a
  phone \<open>p\<close> of 10 (decimal) digits answers \<^verbatim>\<open>Contact added/updated.\<close> and leaves under
  \<open>n\<close> the same record with \<open>p\<close> appended to the end of its phones (whether or not \<open>p\<close>
  is among them already): the phones it had, its birthday and its name are kept, and so
  are the other records and the order of the book.
\<close>

theorem add_existing_contact_appends:
  assumes "parse_input user_input = [(ascii ''add''), n, p]"
    and "find_record book n = Some r" and "name r = n" and "ten_digits p"
  shows "\<exists>book'. main_step today book user_input = Continue book' (ascii ''Contact added/updated.'')
          \<and> find_record book' n = Some (r\<lparr>phones := phones r @ [p]\<rparr>)
          \<and> phones (r\<lparr>phones := phones r @ [p]\<rparr>) = phones r @ [p]
          \<and> birthday (r\<lparr>phones := phones r @ [p]\<rparr>) = birthday r
          \<and> name (r\<lparr>phones := phones r @ [p]\<rparr>) = n
          \<and> (\<forall>m. m \<noteq> n \<longrightarrow> find_record book' m = find_record book m)
          \<and> map fst book' = map fst book"
proof -
  let ?r' = "r\<lparr>phones := phones r @ [p]\<rparr>"
  have "add_contact [n, p] book = (AList.update n ?r' book, Inr (ascii ''Contact added/updated.''))"
    using assms(2-4)
    by (simp add: add_contact_def add_contact_body_def add_phone_ten_digits add_record_def
        update_update_same)
  then have "main_step today book user_input
      = Continue (AList.update n ?r' book) (ascii ''Contact added/updated.'')"
    using assms(1) by (simp add: main_step_def printed_def)
  moreover have "find_record (AList.update n ?r' book) n = Some ?r'"
    by (simp add: find_record_def update_conv')
  moreover have "\<forall>m. m \<noteq> n \<longrightarrow> find_record (AList.update n ?r' book) m = find_record book m"
    by (simp add: find_record_def update_conv')
  moreover have "map fst (AList.update n ?r' book) = map fst book"
    using assms(2) by (simp add: find_record_def map_fst_update_present)
  ultimately show ?thesis using assms(3) by simp
qed

theorem add_existing_contact_appends_witness:
  "\<exists>book'. main_step \<lparr>year = 2024, month = 5, day = 17\<rparr>
        [((ascii ''Bob''), \<lparr>name = ascii ''Bob'', phones = [(ascii ''1112223333'')], birthday = Some (ascii ''05.03.1990'')\<rparr>)]
        (ascii ''add Bob 1112223333'') = Continue book' (ascii ''Contact added/updated.'')
     \<and> find_record book' (ascii ''Bob'')
         = Some \<lparr>name = ascii ''Bob'', phones = [(ascii ''1112223333''), ascii ''1112223333''],
                 birthday = Some (ascii ''05.03.1990'')\<rparr>"
proof -
  let ?r = "\<lparr>name = ascii ''Bob'', phones = [(ascii ''1112223333'')], birthday = Some (ascii ''05.03.1990'')\<rparr>"
  have h1: "parse_input (ascii ''add Bob 1112223333'') = [(ascii ''add''), ascii ''Bob'', ascii ''1112223333'']"
    by code_simp
  have h2: "find_record [((ascii ''Bob''), ?r)] (ascii ''Bob'') = Some ?r"
    by (simp add: find_record_def)
  have h3: "name ?r = (ascii ''Bob'')" by simp
  have h4: "ten_digits (ascii ''1112223333'')" by code_simp
  from add_existing_contact_appends [OF h1 h2 h3 h4, of "\<lparr>year = 2024, month = 5, day = 17\<rparr>"]
  show ?thesis by auto
qed

subsection \<open>Every stored phone has 10 digits\<close>



















end
